theory Spec2Isabelle
  imports Complex_Main
begin

section \<open>The extension module \<open>_decoder\<close>\<close>

text \<open>
  The repository's source is \<^verbatim>\<open>bindings/python/wav2letter/_decoder.cpp\<close>: the pybind11
  module that exposes the decoder library to Python. The file is declarative. Each
  \<^verbatim>\<open>py::class_<T, ...>(m, "Name")\<close> registers a class, and the calls chained to it
  register its members:
  \<^item> \<^verbatim>\<open>.def(py::init<Ts...>(), names...)\<close>: a constructor;
  \<^item> \<^verbatim>\<open>.def("name", fn, names...)\<close>: a method;
  \<^item> \<^verbatim>\<open>.def_readwrite("name", &T::field)\<close>: an attribute with a getter and a setter.
  The module is embedded as the table of these registrations, in the order of the file,
  followed by what pybind11 does with such a table when Python reads an attribute or
  assigns one.
\<close>

datatype member =
    Init "string list" "string list"
  | Def string "string list"
  | Def_readwrite string
  | Def_readonly string

datatype binding =
    Class string "string list" "member list"
  | Enum string "string list"

text \<open>
  \<open>Init tys names\<close> keeps the C++ parameter types of \<^verbatim>\<open>py::init<...>\<close> and the keyword
  names given with \<^verbatim>\<open>"..."_a\<close>; \<open>Def name names\<close> the Python name of a method and its
  keyword names; \<open>Class name extra members\<close> the Python name of a class, the template
  arguments after the bound type (a holder type, a trampoline class) and its members.
  \<open>Def_readonly\<close> is pybind11's getter-only registration; the module never uses it.
  The \<^verbatim>\<open>KenLM\<close> class is registered only under \<^verbatim>\<open>W2L_LIBRARIES_USE_KENLM\<close> and adds a
  constructor and nothing else; it is left out.
\<close>

definition decoder_module :: "binding list" where
  "decoder_module =
    [Class ''encapsulated_data'' [] [],
     Enum ''SmearingMode'' [''NONE'', ''MAX'', ''LOGADD''],
     Class ''TrieNode'' [''TrieNodePtr'']
       [Init [''int''] [''idx''],
        Def_readwrite ''children'',
        Def_readwrite ''idx'',
        Def_readwrite ''nLabel'',
        Def_readwrite ''label'',
        Def_readwrite ''score'',
        Def_readwrite ''maxScore''],
     Class ''Trie'' [''TriePtr'']
       [Init [''int'', ''int''] [''maxChildren'', ''rootIdx''],
        Def ''getRoot'' [],
        Def ''insert'' [''indices'', ''label'', ''score''],
        Def ''search'' [''indices''],
        Def ''smear'' [''smear_mode'']],
     Class ''LM'' [''LMPtr'', ''PyLM'']
       [Init [] [],
        Def ''start'' [''startWithNothing''],
        Def ''score'' [''state'', ''usrTokenIdx''],
        Def ''finish'' [''state''],
        Def ''compareState'' [''state1'', ''state2'']],
     Enum ''CriterionType'' [''ASG'', ''CTC''],
     Class ''DecoderOptions'' []
       [Init [''int'', ''float'', ''float'', ''float'', ''float'', ''bool'', ''float'',
              ''CriterionType'']
          [''beamSize'', ''beamThreshold'', ''lmWeight'', ''wordScore'', ''unkScore'',
           ''logAdd'', ''silWeight'', ''criterionType''],
        Def_readwrite ''beamSize'',
        Def_readwrite ''beamThreshold'',
        Def_readwrite ''lmWeight'',
        Def_readwrite ''wordScore'',
        Def_readwrite ''unkScore'',
        Def_readwrite ''logAdd'',
        Def_readwrite ''silWeight'',
        Def_readwrite ''criterionType''],
     Class ''DecodeResult'' []
       [Init [''int''] [''length''],
        Def_readwrite ''score'',
        Def_readwrite ''words'',
        Def_readwrite ''tokens''],
     Class ''WordLMDecoder'' []
       [Init [''DecoderOptions'', ''TriePtr'', ''LMPtr'', ''int'', ''int'', ''int'',
              ''vector_float''] [],
        Def ''decodeBegin'' [],
        Def ''decodeStep'' [],
        Def ''decodeEnd'' [],
        Def ''decode'' [],
        Def ''prune'' [],
        Def ''getBestHypothesis'' [],
        Def ''getAllFinalHypothesis'' []]]"

subsection \<open>Looking a member up\<close>

fun class_members :: "binding list \<Rightarrow> string \<Rightarrow> member list option" where
  "class_members [] c = None"
| "class_members (Class n extra ms # bs) c = (if n = c then Some ms else class_members bs c)"
| "class_members (Enum n vs # bs) c = class_members bs c"

fun member_name :: "member \<Rightarrow> string" where
  "member_name (Init tys names) = ''__init__''"
| "member_name (Def n names) = n"
| "member_name (Def_readwrite n) = n"
| "member_name (Def_readonly n) = n"

definition find_member :: "member list \<Rightarrow> string \<Rightarrow> member option" where
  "find_member ms a = find (\<lambda>m. member_name m = a) ms"

subsection \<open>Objects, handles and the store\<close>

text \<open>
  A Python value is a scalar, a container, a handle or a bound method (\<open>PyMethod a n\<close>:
  method \<open>n\<close> of the object at address \<open>a\<close>). A handle \<open>PyRef a\<close> names the
  object at address \<open>a\<close> of the store: two handles with the same address are two names
  of one object, which is how a node handed out by the trie and the node inside the trie
  are the same node. Objects are never freed in the model (a Python reference keeps its
  object alive), so an address, once allocated, stays valid.
\<close>

type_synonym addr = nat

datatype pyvalue =
    PyNone
  | PyBool bool
  | PyInt int
  | PyFloat real
  | PyList "pyvalue list"
  | PyDict "(pyvalue \<times> pyvalue) list"
  | PyRef addr
  | PyMethod addr string

record pyobject =
  class_of :: string
  attrs :: "string \<Rightarrow> pyvalue option"

type_synonym store = "pyobject list"

datatype py_error = AttributeError | TypeError | InvalidHandle

text \<open>
  The C++ types of the data members are declared in the library's headers, which are not
  among the sources, so the conversion of a value to a member's type is a parameter of the
  model: \<open>conv s c a v\<close> is pybind11's conversion of the Python value \<open>v\<close> to the C++ type
  of member \<open>a\<close> of class \<open>c\<close>, in store \<open>s\<close> (a handle converts when the object it names
  has the right class): \<open>Some w\<close> when \<open>v\<close> converts (to \<open>w\<close>), \<open>None\<close> when it does not,
  in which case the setter is never reached and Python sees a \<^verbatim>\<open>TypeError\<close>.
\<close>

type_synonym converter = "pyobject list \<Rightarrow> string \<Rightarrow> string \<Rightarrow> pyvalue \<Rightarrow> pyvalue option"

definition py_getattr :: "binding list \<Rightarrow> store \<Rightarrow> addr \<Rightarrow> string \<Rightarrow> py_error + pyvalue" where
  "py_getattr m s h a =
    (if h < length s then
       (case class_members m (class_of (s ! h)) of
          None \<Rightarrow> Inl TypeError
        | Some ms \<Rightarrow>
            (case find_member ms a of
               Some (Def_readwrite n) \<Rightarrow>
                 (case attrs (s ! h) a of None \<Rightarrow> Inl AttributeError | Some v \<Rightarrow> Inr v)
             | Some (Def_readonly n) \<Rightarrow>
                 (case attrs (s ! h) a of None \<Rightarrow> Inl AttributeError | Some v \<Rightarrow> Inr v)
             | Some (Def n names) \<Rightarrow> Inr (PyMethod h n)
             | Some (Init tys names) \<Rightarrow> Inr (PyMethod h a)
             | None \<Rightarrow> Inl AttributeError))
     else Inl InvalidHandle)"

definition py_setattr ::
  "converter \<Rightarrow> binding list \<Rightarrow> store \<Rightarrow> addr \<Rightarrow> string \<Rightarrow> pyvalue \<Rightarrow> py_error + store" where
  "py_setattr conv m s h a v =
    (if h < length s then
       (case class_members m (class_of (s ! h)) of
          None \<Rightarrow> Inl TypeError
        | Some ms \<Rightarrow>
            (case find_member ms a of
               Some (Def_readwrite n) \<Rightarrow>
                 (case conv s (class_of (s ! h)) a v of
                    None \<Rightarrow> Inl TypeError
                  | Some w \<Rightarrow> Inr (s[h := (s ! h)\<lparr>attrs := (attrs (s ! h))(a \<mapsto> w)\<rparr>]))
             | _ \<Rightarrow> Inl AttributeError))
     else Inl InvalidHandle)"

text \<open>
  Reading a name that the class registers as a method gives the method, bound to the
  object; reading a name the class does not register is an \<^verbatim>\<open>AttributeError\<close>. Assigning
  to anything but a read-write attribute (a method, a read-only attribute, a name the
  class does not register) is an \<^verbatim>\<open>AttributeError\<close> too: a pybind11 class has no instance
  dictionary unless it asks for one, and none of this module's classes does.
\<close>

subsection \<open>A concrete converter\<close>

text \<open>
  Modelled from the spec: the C++ types of the data members of \<^verbatim>\<open>TrieNode\<close>, declared in
  the library's headers, which are not among the sources. The spec gives a node a mapping
  from token index to child, word ids with their scores, a count of them and a summary
  score (section 3). Floats are reals: the rounding of a Python double to a C++ float is
  not modelled. The general statements below hold for every converter; this one serves
  where a statement has to be evaluated.
\<close>

datatype ctype = C_int | C_float | C_int_vector | C_float_vector | C_node_map

fun is_int :: "pyvalue \<Rightarrow> bool" where
  "is_int (PyInt i) = True"
| "is_int v = False"

fun is_number :: "pyvalue \<Rightarrow> bool" where
  "is_number (PyInt i) = True"
| "is_number (PyFloat x) = True"
| "is_number v = False"

fun to_float :: "pyvalue \<Rightarrow> pyvalue" where
  "to_float (PyInt i) = PyFloat (real_of_int i)"
| "to_float v = v"

fun is_node :: "store \<Rightarrow> pyvalue \<Rightarrow> bool" where
  "is_node s (PyRef k) = (k < length s \<and> class_of (s ! k) = ''TrieNode'')"
| "is_node s v = False"

fun load :: "store \<Rightarrow> ctype \<Rightarrow> pyvalue \<Rightarrow> pyvalue option" where
  "load s C_int v = (if is_int v then Some v else None)"
| "load s C_float v = (if is_number v then Some (to_float v) else None)"
| "load s C_int_vector (PyList xs) = (if list_all is_int xs then Some (PyList xs) else None)"
| "load s C_float_vector (PyList xs) =
     (if list_all is_number xs then Some (PyList (map to_float xs)) else None)"
| "load s C_node_map (PyDict kvs) =
     (if list_all (\<lambda>kv. is_int (fst kv) \<and> is_node s (snd kv)) kvs then Some (PyDict kvs)
      else None)"
| "load s t v = None"

definition member_type :: "string \<Rightarrow> string \<Rightarrow> ctype option" where
  "member_type c a =
    map_of
      [((''TrieNode'', ''children''), C_node_map),
       ((''TrieNode'', ''idx''), C_int),
       ((''TrieNode'', ''nLabel''), C_int),
       ((''TrieNode'', ''label''), C_int_vector),
       ((''TrieNode'', ''score''), C_float_vector),
       ((''TrieNode'', ''maxScore''), C_float)]
      (c, a)"

definition std_conv :: converter where
  "std_conv s c a v = (case member_type c a of None \<Rightarrow> None | Some t \<Rightarrow> load s t v)"

subsection \<open>A store\<close>

text \<open>
  \<open>trie_store\<close> holds a trie for an alphabet of three tokens at address 0, its root at
  address 1, and at address 2 the root's child for token 0, which carries word 7 with
  score 0.
\<close>

definition trie_store :: store where
  "trie_store =
    [\<lparr>class_of = ''Trie'',
      attrs = [''root'' \<mapsto> PyRef 1, ''maxChildren'' \<mapsto> PyInt 3]\<rparr>,
     \<lparr>class_of = ''TrieNode'',
      attrs = [''children'' \<mapsto> PyDict [(PyInt 0, PyRef 2)], ''idx'' \<mapsto> PyInt 0,
               ''nLabel'' \<mapsto> PyInt 0, ''label'' \<mapsto> PyList [], ''score'' \<mapsto> PyList [],
               ''maxScore'' \<mapsto> PyFloat 0]\<rparr>,
     \<lparr>class_of = ''TrieNode'',
      attrs = [''children'' \<mapsto> PyDict [], ''idx'' \<mapsto> PyInt 1,
               ''nLabel'' \<mapsto> PyInt 1, ''label'' \<mapsto> PyList [PyInt 7],
               ''score'' \<mapsto> PyList [PyFloat 0], ''maxScore'' \<mapsto> PyFloat 0]\<rparr>]"

text \<open>
  What an object that holds a handle sees through it: the object the handle names. The
  trie keeps its root as a handle, and so does a Python variable bound to the result of
  \<^verbatim>\<open>getRoot()\<close>: \<^verbatim>\<open>TrieNode\<close> is registered with the holder \<^verbatim>\<open>TrieNodePtr\<close>, a shared
  pointer, so both name one node.
\<close>

fun deref :: "store \<Rightarrow> pyvalue option \<Rightarrow> pyobject option" where
  "deref s (Some (PyRef k)) = (if k < length s then Some (s ! k) else None)"
| "deref s v = None"

section \<open>The trie and its smearing pass\<close>

text \<open>
  The smearing modes are the enumeration the module registers (\<^verbatim>\<open>NONE\<close>, \<^verbatim>\<open>MAX\<close>,
  \<^verbatim>\<open>LOGADD\<close>); \<open>MAX\<close> is a binder of HOL, so the constructor is \<open>MAX'\<close>. A node has the six
  fields the module registers for \<^verbatim>\<open>TrieNode\<close>. Here a node holds its children themselves,
  each under its token index, so a trie is a finite tree, and the first \<open>nLabel\<close> entries
  of \<open>label\<close> and \<open>score\<close> are the words that end at the node and their unigram scores.
\<close>

datatype SmearingMode = NONE | MAX' | LOGADD

datatype TrieNode =
  TrieNode (children: "(int \<times> TrieNode) list") (idx: int) (nLabel: nat)
    (label: "int list") (score: "real list") (maxScore: real)

record Trie =
  root :: TrieNode
  maxChildren :: int

text \<open>
  Modelled from the spec: \<^verbatim>\<open>Trie::smear\<close>, which the module binds and whose body is in the
  library, not among the sources. The spec (sections 3 and 4.1): a single pass over the
  whole tree computes each node's \<open>maxScore\<close> by the mode's rule over the word-label
  scores of the node's subtree; \<^verbatim>\<open>MAX\<close> takes the maximum of those scores, \<^verbatim>\<open>LOGADD\<close>
  their log-sum-exp, \<^verbatim>\<open>NONE\<close> leaves \<open>maxScore\<close> as it is. The spec does not say what a
  node gets whose subtree has no word label; the model leaves its \<open>maxScore\<close> as it is.
  Scores are reals: the rounding of floats is not modelled.
\<close>

fun subtree_scores :: "TrieNode \<Rightarrow> real list" where
  "subtree_scores (TrieNode ch i n lb sc ms) =
     take n sc @ concat (map (\<lambda>kc. subtree_scores (snd kc)) ch)"

fun summary :: "SmearingMode \<Rightarrow> real list \<Rightarrow> real option" where
  "summary NONE xs = None"
| "summary m [] = None"
| "summary MAX' (x # xs) = Some (fold max xs x)"
| "summary LOGADD (x # xs) = Some (ln (sum_list (map exp (x # xs))))"

fun smearNode :: "SmearingMode \<Rightarrow> TrieNode \<Rightarrow> TrieNode" where
  "smearNode m (TrieNode ch i n lb sc ms) =
     TrieNode (map (\<lambda>kc. (fst kc, smearNode m (snd kc))) ch) i n lb sc
       (case summary m (subtree_scores (TrieNode ch i n lb sc ms)) of
          None \<Rightarrow> ms
        | Some v \<Rightarrow> v)"

definition smear :: "SmearingMode \<Rightarrow> Trie \<Rightarrow> Trie" where
  "smear m t = t\<lparr>root := smearNode m (root t)\<rparr>"

text \<open>
  \<open>ab_trie\<close> is the trie of the spec's scenario, one word spelled by the tokens 0 and 1,
  with a second word on the way: word 7 with score \<open>-1\<close> ends after token 0, word 8 with
  score 2 after tokens 0 and 1. No node has been smeared: every \<open>maxScore\<close> is 0.
\<close>

definition ab_trie :: Trie where
  "ab_trie =
    \<lparr>root = TrieNode
        [(0, TrieNode [(1, TrieNode [] 2 1 [8] [2] 0)] 1 1 [7] [- 1] 0)] 0 0 [] [] 0,
     maxChildren = 3\<rparr>"

section \<open>What the interface lets a caller do\<close>

subsection \<open>The members of two classes\<close>

lemma TrieNode_members:
  "class_members decoder_module ''TrieNode'' =
     Some [Init [''int''] [''idx''], Def_readwrite ''children'', Def_readwrite ''idx'',
           Def_readwrite ''nLabel'', Def_readwrite ''label'', Def_readwrite ''score'',
           Def_readwrite ''maxScore'']"
  by (simp add: decoder_module_def)

lemma Trie_members:
  "class_members decoder_module ''Trie'' =
     Some [Init [''int'', ''int''] [''maxChildren'', ''rootIdx''], Def ''getRoot'' [],
           Def ''insert'' [''indices'', ''label'', ''score''], Def ''search'' [''indices''],
           Def ''smear'' [''smear_mode'']]"
  by (simp add: decoder_module_def)

lemma setattr_readwrite:
  assumes "h < length s"
    and "class_members m (class_of (s ! h)) = Some ms"
    and "find_member ms a = Some (Def_readwrite n)"
    and "conv s (class_of (s ! h)) a v = Some w"
  shows "py_setattr conv m s h a v = Inr (s[h := (s ! h)\<lparr>attrs := (attrs (s ! h))(a \<mapsto> w)\<rparr>])"
  using assms by (simp add: py_setattr_def)

lemma getattr_after_setattr:
  assumes "h < length s"
    and "class_members m (class_of (s ! h)) = Some ms"
    and "find_member ms a = Some (Def_readwrite n)"
  shows "py_getattr m (s[h := (s ! h)\<lparr>attrs := (attrs (s ! h))(a \<mapsto> w)\<rparr>]) h a = Inr w"
  using assms by (simp add: py_getattr_def)

subsection \<open>Trie nodes\<close>

text \<open>
  Claim C10. At the Python interface every field of \<^verbatim>\<open>TrieNode\<close> (\<^verbatim>\<open>children\<close>, \<^verbatim>\<open>idx\<close>,
  \<^verbatim>\<open>nLabel\<close>, \<^verbatim>\<open>label\<close>, \<^verbatim>\<open>score\<close>, \<^verbatim>\<open>maxScore\<close>) is a read-write attribute: for every
  handle of a \<^verbatim>\<open>TrieNode\<close>, every one of the six names and every value that converts to the
  field's type, the assignment succeeds, and reading the attribute back gives the assigned
  value. The assignment changes the node itself, not a copy: the store keeps its size,
  the node keeps its class and its other fields, every other object is left as it was,
  and whatever object holds a handle of the node (the trie that owns it, as its root) sees
  the new value through that handle. So nothing at the interface keeps a caller from
  changing the child links or the scores of a trie at any time, after \<^verbatim>\<open>smear()\<close> and
  between decode calls too.
\<close>

theorem TrieNode_attributes_read_write:
  assumes "h < length s" and "class_of (s ! h) = ''TrieNode''"
    and "a \<in> set [''children'', ''idx'', ''nLabel'', ''label'', ''score'', ''maxScore'']"
    and "conv s ''TrieNode'' a v = Some w"
  shows "\<exists>s'. py_setattr conv decoder_module s h a v = Inr s'
       \<and> py_getattr decoder_module s' h a = Inr w
       \<and> length s' = length s
       \<and> class_of (s' ! h) = ''TrieNode''
       \<and> (\<forall>b. b \<noteq> a \<longrightarrow> attrs (s' ! h) b = attrs (s ! h) b)
       \<and> (\<forall>k. k \<noteq> h \<longrightarrow> s' ! k = s ! k)
       \<and> (\<forall>t b. t < length s \<and> t \<noteq> h \<and> attrs (s ! t) b = Some (PyRef h) \<longrightarrow>
             (\<exists>ob. deref s' (attrs (s' ! t) b) = Some ob \<and> attrs ob a = Some w))"
proof -
  let ?ms = "[Init [''int''] [''idx''], Def_readwrite ''children'', Def_readwrite ''idx'',
           Def_readwrite ''nLabel'', Def_readwrite ''label'', Def_readwrite ''score'',
           Def_readwrite ''maxScore'']"
  let ?s' = "s[h := (s ! h)\<lparr>attrs := (attrs (s ! h))(a \<mapsto> w)\<rparr>]"
  have ms: "class_members decoder_module (class_of (s ! h)) = Some ?ms"
    using assms(2) TrieNode_members by simp
  have fm: "find_member ?ms a = Some (Def_readwrite a)"
    using assms(3) by (auto simp: find_member_def)
  have set: "py_setattr conv decoder_module s h a v = Inr ?s'"
    using setattr_readwrite [OF assms(1) ms fm] assms(2,4) by simp
  have get: "py_getattr decoder_module ?s' h a = Inr w"
    by (rule getattr_after_setattr [OF assms(1) ms fm])
  have cls: "class_of (?s' ! h) = ''TrieNode''"
    using assms(1,2) by simp
  have frame: "\<forall>b. b \<noteq> a \<longrightarrow> attrs (?s' ! h) b = attrs (s ! h) b"
    using assms(1) by simp
  have others: "\<forall>k. k \<noteq> h \<longrightarrow> ?s' ! k = s ! k"
    by simp
  have shared: "\<forall>t b. t < length s \<and> t \<noteq> h \<and> attrs (s ! t) b = Some (PyRef h) \<longrightarrow>
             (\<exists>ob. deref ?s' (attrs (?s' ! t) b) = Some ob \<and> attrs ob a = Some w)"
    using assms(1) by simp
  show ?thesis
    using set get cls frame others shared by (intro exI [of _ ?s']) simp
qed

text \<open>
  In \<open>trie_store\<close>, whose trie has three tokens, the caller replaces the child links of the
  root by one link for token 9: the assignment succeeds, and the trie's own root now has
  that link.
\<close>

theorem TrieNode_attributes_read_write_witness:
  "(1::nat) < length trie_store
   \<and> class_of (trie_store ! 1) = ''TrieNode''
   \<and> std_conv trie_store ''TrieNode'' ''children'' (PyDict [(PyInt 9, PyRef 2)])
       = Some (PyDict [(PyInt 9, PyRef 2)])
   \<and> (\<exists>s'. py_setattr std_conv decoder_module trie_store 1 ''children''
               (PyDict [(PyInt 9, PyRef 2)]) = Inr s'
          \<and> py_getattr decoder_module s' 1 ''children'' = Inr (PyDict [(PyInt 9, PyRef 2)])
          \<and> (\<exists>ob. deref s' (attrs (s' ! 0) ''root'') = Some ob
                 \<and> attrs ob ''children'' = Some (PyDict [(PyInt 9, PyRef 2)])))"
proof -
  have h: "(1::nat) < length trie_store"
    by (simp add: trie_store_def)
  have c: "class_of (trie_store ! 1) = ''TrieNode''"
    by (simp add: trie_store_def)
  have v: "std_conv trie_store ''TrieNode'' ''children'' (PyDict [(PyInt 9, PyRef 2)])
       = Some (PyDict [(PyInt 9, PyRef 2)])"
    by (simp add: std_conv_def member_type_def trie_store_def)
  have a: "''children'' \<in> set [''children'', ''idx'', ''nLabel'', ''label'', ''score'', ''maxScore'']"
    by simp
  have r: "(0::nat) < length trie_store \<and> (0::nat) \<noteq> 1
          \<and> attrs (trie_store ! 0) ''root'' = Some (PyRef 1)"
    by (simp add: trie_store_def)
  from TrieNode_attributes_read_write [where conv = std_conv and s = trie_store, OF h c a v]
  obtain s' where
    s': "py_setattr std_conv decoder_module trie_store 1 ''children''
               (PyDict [(PyInt 9, PyRef 2)]) = Inr s'"
       "py_getattr decoder_module s' 1 ''children'' = Inr (PyDict [(PyInt 9, PyRef 2)])"
       "\<forall>t b. t < length trie_store \<and> t \<noteq> 1 \<and> attrs (trie_store ! t) b = Some (PyRef 1) \<longrightarrow>
             (\<exists>ob. deref s' (attrs (s' ! t) b) = Some ob
                  \<and> attrs ob ''children'' = Some (PyDict [(PyInt 9, PyRef 2)]))"
    by blast
  from s'(3) r have
    "\<exists>ob. deref s' (attrs (s' ! 0) ''root'') = Some ob
                 \<and> attrs ob ''children'' = Some (PyDict [(PyInt 9, PyRef 2)])"
    by blast
  with h c v s'(1,2) show ?thesis by blast
qed

text \<open>
  The trie object itself is closed: the module registers a constructor and four methods
  for \<^verbatim>\<open>Trie\<close> and no attribute, so every assignment to a trie is refused, while its
  methods can be read (and then called). Its nodes are what the caller can write to.
\<close>

lemma Trie_registers_no_attribute:
  assumes "h < length s" and "class_of (s ! h) = ''Trie''"
  shows "py_setattr conv decoder_module s h a v = Inl AttributeError"
  using assms Trie_members
  by (simp add: py_setattr_def find_member_def split: option.splits member.splits)

lemma Trie_methods_readable:
  assumes "h < length s" and "class_of (s ! h) = ''Trie''"
    and "n \<in> set [''getRoot'', ''insert'', ''search'', ''smear'']"
  shows "py_getattr decoder_module s h n = Inr (PyMethod h n)"
  using assms Trie_members
  by (auto simp: py_getattr_def find_member_def)

section \<open>Smearing twice\<close>

text \<open>
  The pass writes \<open>maxScore\<close> and nothing else, and what it writes depends on the labels
  alone; so the label scores of every subtree are the same after the pass, and a second
  pass writes the same values again.
\<close>

lemma subtree_scores_smearNode: "subtree_scores (smearNode m n) = subtree_scores n"
proof (induction n)
  case (TrieNode ch i n lb sc ms)
  have pt: "subtree_scores (smearNode m (snd kc)) = subtree_scores (snd kc)"
    if "kc \<in> set ch" for kc
    using TrieNode.IH [of kc "snd kc"] that by (cases kc) simp
  show ?case
    by (simp add: comp_def pt cong: map_cong)
qed

lemma smearNode_idem: "smearNode m (smearNode m n) = smearNode m n"
proof (induction n)
  case (TrieNode ch i n lb sc ms)
  have pt: "smearNode m (smearNode m (snd kc)) = smearNode m (snd kc)"
    if "kc \<in> set ch" for kc
    using TrieNode.IH [of kc "snd kc"] that by (cases kc) simp
  show ?case
    by (simp add: comp_def pt subtree_scores_smearNode cong: map_cong split: option.splits)
qed

lemma smear_MAX_ab_trie:
  "smear MAX' ab_trie =
    \<lparr>root = TrieNode
        [(0, TrieNode [(1, TrieNode [] 2 1 [8] [2] 2)] 1 1 [7] [- 1] 2)] 0 0 [] [] 2,
     maxChildren = 3\<rparr>"
  by (simp add: smear_def ab_trie_def)

text \<open>
  Claim C6. \<^verbatim>\<open>Trie.smear\<close> is idempotent: for every trie and every smearing mode, smearing
  a trie that was already smeared with the same mode gives the same trie again, with
  every node's \<open>maxScore\<close> and all the rest of every node unchanged.
\<close>

theorem smear_idempotent: "smear m (smear m t) = smear m t"
proof -
  have first: "root (smear m t) = smearNode m (root t)"
    by (simp add: smear_def)
  have "smearNode m (root (smear m t)) = smearNode m (smearNode m (root t))"
    using first by simp
  also have "\<dots> = smearNode m (root t)"
    by (rule smearNode_idem)
  finally have second: "smearNode m (root (smear m t)) = root (smear m t)"
    using first by simp
  have "smear m (smear m t) = (smear m t)\<lparr>root := smearNode m (root (smear m t))\<rparr>"
    by (simp add: smear_def)
  also have "\<dots> = smear m t"
    using second by simp
  finally show ?thesis .
qed

end
